theory Spec2Isabelle
  imports Main "HOL-Library.Word" "HOL-Library.Sublist"
begin

unbundle bit_operations_syntax

section \<open>Python values used by the script\<close>

text \<open>
  \<^verbatim>\<open>bytes\<close> is a list of 8-bit words, \<^verbatim>\<open>str\<close> is a \<open>string\<close>, Python's unbounded
  \<^verbatim>\<open>int\<close> is \<open>int\<close>.
\<close>

type_synonym byte = "8 word"
type_synonym u32 = "32 word"

text \<open>\<^verbatim>\<open>str(n)\<close> for an integer, as an f-string renders \<^verbatim>\<open>{len(content)}\<close> and
  \<^verbatim>\<open>{response.status_code}\<close>: decimal digits, a leading minus sign when negative.\<close>

definition decimal_digits :: string where
  "decimal_digits = ''0123456789''"

fun str_nat :: "nat \<Rightarrow> string" where
  "str_nat n =
     (if n < 10 then [decimal_digits ! n]
      else str_nat (n div 10) @ [decimal_digits ! (n mod 10)])"

declare str_nat.simps [simp del]

definition str_int :: "int \<Rightarrow> string" where
  "str_int i = (if i < 0 then CHR ''-'' # str_nat (nat (- i)) else str_nat (nat i))"

section \<open>\<^verbatim>\<open>hashlib.sha256(content).hexdigest()\<close>\<close>

text \<open>
  The script calls the standard library's SHA-256. It is modelled by the algorithm of
  FIPS 180-4 on 32-bit words: padding to a multiple of 64 bytes, a 64-word message
  schedule per block, 64 rounds of compression, and the eight chaining words written out
  big-endian.
\<close>

definition rotr :: "nat \<Rightarrow> u32 \<Rightarrow> u32" where
  "rotr n x = drop_bit n x OR push_bit (32 - n) x"

definition Ch :: "u32 \<Rightarrow> u32 \<Rightarrow> u32 \<Rightarrow> u32" where
  "Ch x y z = (x AND y) XOR (NOT x AND z)"

definition Maj :: "u32 \<Rightarrow> u32 \<Rightarrow> u32 \<Rightarrow> u32" where
  "Maj x y z = (x AND y) XOR (x AND z) XOR (y AND z)"

definition big_sigma0 :: "u32 \<Rightarrow> u32" where
  "big_sigma0 x = rotr 2 x XOR rotr 13 x XOR rotr 22 x"

definition big_sigma1 :: "u32 \<Rightarrow> u32" where
  "big_sigma1 x = rotr 6 x XOR rotr 11 x XOR rotr 25 x"

definition small_sigma0 :: "u32 \<Rightarrow> u32" where
  "small_sigma0 x = rotr 7 x XOR rotr 18 x XOR drop_bit 3 x"

definition small_sigma1 :: "u32 \<Rightarrow> u32" where
  "small_sigma1 x = rotr 17 x XOR rotr 19 x XOR drop_bit 10 x"

definition K256 :: "u32 list" where
  "K256 =
    [0x428A2F98, 0x71374491, 0xB5C0FBCF, 0xE9B5DBA5, 0x3956C25B, 0x59F111F1, 0x923F82A4, 0xAB1C5ED5,
     0xD807AA98, 0x12835B01, 0x243185BE, 0x550C7DC3, 0x72BE5D74, 0x80DEB1FE, 0x9BDC06A7, 0xC19BF174,
     0xE49B69C1, 0xEFBE4786, 0x0FC19DC6, 0x240CA1CC, 0x2DE92C6F, 0x4A7484AA, 0x5CB0A9DC, 0x76F988DA,
     0x983E5152, 0xA831C66D, 0xB00327C8, 0xBF597FC7, 0xC6E00BF3, 0xD5A79147, 0x06CA6351, 0x14292967,
     0x27B70A85, 0x2E1B2138, 0x4D2C6DFC, 0x53380D13, 0x650A7354, 0x766A0ABB, 0x81C2C92E, 0x92722C85,
     0xA2BFE8A1, 0xA81A664B, 0xC24B8B70, 0xC76C51A3, 0xD192E819, 0xD6990624, 0xF40E3585, 0x106AA070,
     0x19A4C116, 0x1E376C08, 0x2748774C, 0x34B0BCB5, 0x391C0CB3, 0x4ED8AA4A, 0x5B9CCA4F, 0x682E6FF3,
     0x748F82EE, 0x78A5636F, 0x84C87814, 0x8CC70208, 0x90BEFFFA, 0xA4506CEB, 0xBEF9A3F7, 0xC67178F2]"

type_synonym hash_state = "u32 \<times> u32 \<times> u32 \<times> u32 \<times> u32 \<times> u32 \<times> u32 \<times> u32"

definition H256_init :: hash_state where
  "H256_init =
    (0x6A09E667, 0xBB67AE85, 0x3C6EF372, 0xA54FF53A, 0x510E527F, 0x9B05688C, 0x1F83D9AB, 0x5BE0CD19)"

definition be32 :: "u32 \<Rightarrow> byte list" where
  "be32 w = [ucast (drop_bit 24 w), ucast (drop_bit 16 w), ucast (drop_bit 8 w), ucast w]"

definition be64 :: "64 word \<Rightarrow> byte list" where
  "be64 w = map (\<lambda>i. ucast (drop_bit (8 * i) w)) [7, 6, 5, 4, 3, 2, 1, 0]"

text \<open>Padding: the byte 0x80, zero bytes up to 56 modulo 64, the bit length in 64 bits.\<close>

definition pad :: "byte list \<Rightarrow> byte list" where
  "pad msg =
     msg @ [0x80] @ replicate ((119 - length msg mod 64) mod 64) 0
         @ be64 (of_nat (8 * length msg))"

fun be_words :: "byte list \<Rightarrow> u32 list" where
  "be_words (b0 # b1 # b2 # b3 # bs) =
     (push_bit 24 (ucast b0) OR push_bit 16 (ucast b1) OR push_bit 8 (ucast b2) OR ucast b3)
       # be_words bs"
| "be_words _ = []"

fun blocks :: "byte list \<Rightarrow> byte list list" where
  "blocks bs = (if length bs < 64 then [] else take 64 bs # blocks (drop 64 bs))"

declare blocks.simps [simp del]

fun schedule :: "nat \<Rightarrow> u32 list \<Rightarrow> u32 list" where
  "schedule 0 ws = ws"
| "schedule (Suc n) ws =
     (let t = length ws
      in schedule n
           (ws @ [small_sigma1 (ws ! (t - 2)) + ws ! (t - 7)
                   + small_sigma0 (ws ! (t - 15)) + ws ! (t - 16)]))"

fun round256 :: "hash_state \<Rightarrow> u32 \<times> u32 \<Rightarrow> hash_state" where
  "round256 (a, b, c, d, e, f, g, h) (k, w) =
     (let t1 = h + big_sigma1 e + Ch e f g + k + w;
          t2 = big_sigma0 a + Maj a b c
      in (t1 + t2, a, b, c, d + t1, e, f, g))"

fun add_state :: "hash_state \<Rightarrow> hash_state \<Rightarrow> hash_state" where
  "add_state (a, b, c, d, e, f, g, h) (a', b', c', d', e', f', g', h') =
     (a + a', b + b', c + c', d + d', e + e', f + f', g + g', h + h')"

definition compress :: "hash_state \<Rightarrow> byte list \<Rightarrow> hash_state" where
  "compress hs block =
     add_state hs (foldl round256 hs (zip K256 (schedule 48 (be_words block))))"

fun digest_bytes :: "hash_state \<Rightarrow> byte list" where
  "digest_bytes (a, b, c, d, e, f, g, h) = concat (map be32 [a, b, c, d, e, f, g, h])"

definition sha256 :: "byte list \<Rightarrow> byte list" where
  "sha256 msg = digest_bytes (foldl compress H256_init (blocks (pad msg)))"

text \<open>\<^verbatim>\<open>.hexdigest()\<close>: two lowercase hexadecimal digits per digest byte.\<close>

definition hex_digits :: string where
  "hex_digits = ''0123456789abcdef''"

definition hex_byte :: "byte \<Rightarrow> string" where
  "hex_byte b = [hex_digits ! (unat b div 16), hex_digits ! (unat b mod 16)]"

definition hexdigest :: "byte list \<Rightarrow> string" where
  "hexdigest d = concat (map hex_byte d)"

section \<open>Exceptions, values and the outside world\<close>

text \<open>
  An exception object, with its class name and the text \<^verbatim>\<open>str(e)\<close> that the handler
  prints. Every exception of the model is an instance of \<^verbatim>\<open>Exception\<close>, the class the
  handler names.
\<close>

datatype py_exc = PyException (exc_class: string) (exc_str: string)

text \<open>
  What \<^verbatim>\<open>response.content\<close> may hold: \<^verbatim>\<open>bytes\<close> for a response read from the
  network; a stand-in response may hold a \<^verbatim>\<open>str\<close> or \<^verbatim>\<open>None\<close> instead.
\<close>

datatype py_value = PyBytes "byte list" | PyStr string | PyNone

text \<open>
  The response object: \<^verbatim>\<open>status_code\<close> is an integer; \<^verbatim>\<open>content\<close> is a property
  that either yields a value or raises; \<^verbatim>\<open>headers\<close> either raises when used or is the
  case-insensitive dictionary, a map from the lower-cased header name to its value.
\<close>

record response =
  status_code :: int
  content :: "py_exc + py_value"
  headers :: "py_exc + (string \<rightharpoonup> string)"

text \<open>
  \<^verbatim>\<open>requests.get(url, timeout=t)\<close> either raises or returns a response, and
  \<^verbatim>\<open>print(s)\<close> either writes \<open>s\<close> to standard output (\<open>None\<close>) or raises
  (\<open>Some e\<close>). Both are decided by the world outside the script, so they are parameters
  of the model.
\<close>

type_synonym network = "string \<Rightarrow> nat \<Rightarrow> py_exc + response"

type_synonym console = "string \<Rightarrow> py_exc option"

text \<open>
  What a call does besides returning: the texts it has printed and the requests it has
  issued, in the order in which they happened. \<open>Print s\<close> is a completed
  \<^verbatim>\<open>print(s)\<close>; \<open>Get url t\<close> is \<^verbatim>\<open>requests.get(url, timeout=t)\<close>.
\<close>

datatype event = Print string | Get string nat

fun gets :: "event list \<Rightarrow> (string \<times> nat) list" where
  "gets [] = []"
| "gets (Get url t # evs) = (url, t) # gets evs"
| "gets (Print s # evs) = gets evs"

text \<open>
  A run of some statements: \<open>Inl e\<close> when a statement raised \<open>e\<close>, \<open>Inr x\<close> when they
  completed with value \<open>x\<close>; and the events that happened. \<open>and_then\<close> is sequencing:
  the second part runs only when the first did not raise.
\<close>

type_synonym 'a run = "(py_exc + 'a) \<times> event list"

definition and_then :: "'a run \<Rightarrow> ('a \<Rightarrow> 'b run) \<Rightarrow> 'b run" where
  "and_then m f =
     (case m of
        (Inl e, evs) \<Rightarrow> (Inl e, evs)
      | (Inr x, evs) \<Rightarrow> (case f x of (r, evs') \<Rightarrow> (r, evs @ evs')))"

definition value_of :: "py_exc + 'a \<Rightarrow> 'a run" where
  "value_of r = (r, [])"

definition py_print :: "console \<Rightarrow> string \<Rightarrow> unit run" where
  "py_print out s = (case out s of None \<Rightarrow> (Inr (), [Print s]) | Some e \<Rightarrow> (Inl e, []))"

definition requests_get :: "network \<Rightarrow> string \<Rightarrow> nat \<Rightarrow> response run" where
  "requests_get net url t = (net url t, [Get url t])"

text \<open>\<^verbatim>\<open>hashlib.sha256(v).hexdigest()\<close> and \<^verbatim>\<open>len(v)\<close>: a \<^verbatim>\<open>TypeError\<close> on a value
  they do not accept.\<close>

definition hashlib_sha256_hexdigest :: "py_value \<Rightarrow> py_exc + string" where
  "hashlib_sha256_hexdigest v =
     (case v of
        PyBytes b \<Rightarrow> Inr (hexdigest (sha256 b))
      | PyStr s \<Rightarrow> Inl (PyException ''TypeError'' ''Strings must be encoded before hashing'')
      | PyNone \<Rightarrow> Inl (PyException ''TypeError'' ''object supporting the buffer API required''))"

definition py_len :: "py_value \<Rightarrow> py_exc + nat" where
  "py_len v =
     (case v of
        PyBytes b \<Rightarrow> Inr (length b)
      | PyStr s \<Rightarrow> Inr (length s)
      | PyNone \<Rightarrow> Inl (PyException ''TypeError'' ''object of type NoneType has no len()''))"

definition headers_get ::
  "py_exc + (string \<rightharpoonup> string) \<Rightarrow> string \<Rightarrow> string \<Rightarrow> py_exc + string" where
  "headers_get hs key dflt =
     (case hs of
        Inl e \<Rightarrow> Inl e
      | Inr m \<Rightarrow> Inr (case m key of None \<Rightarrow> dflt | Some v \<Rightarrow> v))"

section \<open>\<^verbatim>\<open>get_inscription_hash\<close>\<close>

definition endpoints :: "string \<Rightarrow> string list" where
  "endpoints inscription_id =
     [''https://ordinals.com/content/'' @ inscription_id,
      ''https://ord.io/content/'' @ inscription_id,
      ''https://ordiscan.com/content/'' @ inscription_id]"

text \<open>
  The statements of the branch taken when the status is 200, up to the \<^verbatim>\<open>return\<close>: the
  body is read, hashed, and the four report lines are printed; each step may raise. The
  value is \<^verbatim>\<open>hash_value\<close>.
\<close>

definition success_branch :: "console \<Rightarrow> response \<Rightarrow> string run" where
  "success_branch out response =
     and_then (value_of (content response)) (\<lambda>content_value.
     and_then (value_of (hashlib_sha256_hexdigest content_value)) (\<lambda>hash_value.
     and_then (py_print out (CHR 0x0A # ''Success!'')) (\<lambda>_.
     and_then (value_of (py_len content_value)) (\<lambda>n.
     and_then (py_print out (''Content length: '' @ str_int (int n) @ '' bytes'')) (\<lambda>_.
     and_then (value_of (headers_get (headers response) ''content-type'' ''unknown''))
       (\<lambda>content_type.
     and_then (py_print out (''Content type: '' @ content_type)) (\<lambda>_.
     and_then (py_print out (''SHA-256 Hash: '' @ hash_value)) (\<lambda>_.
     (Inr hash_value, [])))))))))"

text \<open>
  The body of the \<^verbatim>\<open>try\<close> block for one url. Its outcome is \<open>Inl e\<close> when a statement
  raises \<open>e\<close>, \<open>Inr (Some hash_value)\<close> when it executes \<^verbatim>\<open>return hash_value\<close>, and
  \<open>Inr None\<close> when it runs to its end (the \<^verbatim>\<open>else\<close> branch).
\<close>

definition try_body :: "network \<Rightarrow> console \<Rightarrow> string \<Rightarrow> string option run" where
  "try_body net out url =
     and_then (py_print out (''Trying: '' @ url)) (\<lambda>_.
     and_then (requests_get net url 30) (\<lambda>response.
       if status_code response = 200 then
         and_then (success_branch out response) (\<lambda>hash_value. (Inr (Some hash_value), []))
       else
         and_then (py_print out (''  Status code: '' @ str_int (status_code response)))
           (\<lambda>_. (Inr None, []))))"

text \<open>
  The \<^verbatim>\<open>for url in endpoints\<close> loop. An exception of the \<^verbatim>\<open>try\<close> block goes to the
  handler \<^verbatim>\<open>except Exception as e\<close>, which prints it and continues; that print is
  outside the \<^verbatim>\<open>try\<close>, so when it raises the exception leaves the loop. The outcome is
  \<open>Inl e\<close> when \<open>e\<close> leaves the loop, \<open>Inr (Some hash_value)\<close> when the loop is left by
  \<^verbatim>\<open>return\<close>, and \<open>Inr None\<close> when the list is exhausted.
\<close>

fun for_url :: "network \<Rightarrow> console \<Rightarrow> string list \<Rightarrow> string option run" where
  "for_url net out [] = (Inr None, [])"
| "for_url net out (url # urls) =
     (case try_body net out url of
        (Inr (Some hash_value), evs) \<Rightarrow> (Inr (Some hash_value), evs)
      | (Inr None, evs) \<Rightarrow> and_then (Inr (), evs) (\<lambda>_. for_url net out urls)
      | (Inl e, evs) \<Rightarrow>
          and_then (Inr (), evs) (\<lambda>_.
          and_then (py_print out (''  Error: '' @ exc_str e)) (\<lambda>_.
          for_url net out urls)))"

declare for_url.simps(2) [simp del]

text \<open>
  The function: the loop, then the closing message and \<^verbatim>\<open>return None\<close>. The closing
  print is outside any \<^verbatim>\<open>try\<close>. The outcome \<open>Inl e\<close> is an exception that escapes the
  call; \<open>Inr v\<close> is the returned value.
\<close>

definition get_inscription_hash :: "network \<Rightarrow> console \<Rightarrow> string \<Rightarrow> string option run" where
  "get_inscription_hash net out inscription_id =
     and_then (for_url net out (endpoints inscription_id)) (\<lambda>returned.
       case returned of
         Some hash_value \<Rightarrow> (Inr (Some hash_value), [])
       | None \<Rightarrow>
           and_then
             (py_print out (CHR 0x0A # ''Failed to retrieve content from all endpoints.''))
             (\<lambda>_. (Inr None, [])))"

text \<open>The script's own call, at module level.\<close>

definition inscription_id :: string where
  "inscription_id = ''87e11177b0e184cd7ef0f076fc4de5ddacf509b71d2b1937a01b351965567998i0''"

definition hash_result :: "network \<Rightarrow> console \<Rightarrow> string option run" where
  "hash_result net out = get_inscription_hash net out inscription_id"

section \<open>Concrete worlds\<close>

text \<open>
  Small worlds on which the theorems below are exercised. Bodies and headers: a body
  that is not valid UTF-8, a content type with a character outside ASCII, a 404, a 503, a
  response whose body cannot be read, one whose content is \<^verbatim>\<open>None\<close>. Errors: a
  timeout, a refused connection, and errors whose message has a character outside ASCII.
  Consoles: one that accepts every line, and one that raises on a line containing the
  byte 0xE9, as a standard output limited to ASCII does.
\<close>

definition image_bytes :: "byte list" where
  "image_bytes = [0x89, 0x50, 0x4E, 0x47, 0xFF, 0xFE, 0x00, 0x80]"

definition image_response :: response where
  "image_response =
     \<lparr>status_code = 200, content = Inr (PyBytes image_bytes),
      headers = Inr [''content-type'' \<mapsto> ''image/png'']\<rparr>"

definition latin_response :: response where
  "latin_response =
     \<lparr>status_code = 200, content = Inr (PyBytes image_bytes),
      headers = Inr [''content-type'' \<mapsto> ''image/png; name=caf'' @ [CHR 0xE9]]\<rparr>"

definition not_found :: response where
  "not_found = \<lparr>status_code = 404, content = Inr (PyBytes []), headers = Inr Map.empty\<rparr>"

definition unavailable :: response where
  "unavailable = \<lparr>status_code = 503, content = Inr (PyBytes []), headers = Inr Map.empty\<rparr>"

definition broken_body :: response where
  "broken_body =
     \<lparr>status_code = 200,
      content = Inl (PyException ''ChunkedEncodingError'' ''Connection broken''),
      headers = Inr Map.empty\<rparr>"

definition broken_body_latin :: response where
  "broken_body_latin =
     \<lparr>status_code = 200,
      content = Inl (PyException ''ChunkedEncodingError'' (''connexion coup'' @ [CHR 0xE9, CHR ''e''])),
      headers = Inr Map.empty\<rparr>"

definition none_body :: response where
  "none_body = \<lparr>status_code = 200, content = Inr PyNone, headers = Inr Map.empty\<rparr>"

definition timed_out :: py_exc where
  "timed_out = PyException ''ReadTimeout'' ''Read timed out.''"

definition refused :: py_exc where
  "refused = PyException ''ConnectionError'' ''Connection refused''"

definition refused_latin :: py_exc where
  "refused_latin = PyException ''ConnectionError'' (''connexion refus'' @ [CHR 0xE9, CHR ''e''])"

definition unicode_error :: py_exc where
  "unicode_error = PyException ''UnicodeEncodeError'' ''ascii codec cannot encode character''"

definition console_ok :: console where
  "console_ok s = None"

definition console_ascii :: console where
  "console_ascii s = (if CHR 0xE9 \<in> set s then Some unicode_error else None)"

definition net_first :: network where
  "net_first url t =
     (if url = ''https://ordinals.com/content/'' @ inscription_id then Inr image_response
      else Inl refused)"


definition net_second :: network where
  "net_second url t =
     (if url = ''https://ordinals.com/content/'' @ inscription_id then Inl timed_out
      else if url = ''https://ord.io/content/'' @ inscription_id then Inr image_response
      else Inr not_found)"

definition net_second_after_503 :: network where
  "net_second_after_503 url t =
     (if url = ''https://ordinals.com/content/'' @ inscription_id then Inr unavailable
      else if url = ''https://ord.io/content/'' @ inscription_id then Inr image_response
      else Inr not_found)"

definition net_down :: network where
  "net_down url t =
     (if url = ''https://ordinals.com/content/'' @ inscription_id then Inl refused
      else if url = ''https://ord.io/content/'' @ inscription_id then Inr not_found
      else Inr broken_body)"

definition net_broken_first :: network where
  "net_broken_first url t =
     (if url = ''https://ordinals.com/content/'' @ inscription_id then Inr broken_body
      else if url = ''https://ord.io/content/'' @ inscription_id then Inr image_response
      else Inl refused)"

definition net_none_first :: network where
  "net_none_first url t =
     (if url = ''https://ordinals.com/content/'' @ inscription_id then Inr none_body
      else if url = ''https://ord.io/content/'' @ inscription_id then Inr image_response
      else Inl refused)"

definition net_broken_second :: network where
  "net_broken_second url t =
     (if url = ''https://ordinals.com/content/'' @ inscription_id then Inl refused
      else if url = ''https://ord.io/content/'' @ inscription_id then Inr broken_body
      else Inr image_response)"

definition net_latin_first :: network where
  "net_latin_first url t =
     (if url = ''https://ordinals.com/content/'' @ inscription_id then Inr latin_response
      else if url = ''https://ord.io/content/'' @ inscription_id then Inr image_response
      else Inl refused)"

definition net_latin_only :: network where
  "net_latin_only url t =
     (if url = ''https://ordinals.com/content/'' @ inscription_id then Inr latin_response
      else Inl refused)"

definition net_refused_latin :: network where
  "net_refused_latin url t =
     (if url = ''https://ordinals.com/content/'' @ inscription_id then Inl refused_latin
      else Inr image_response)"

definition net_all_refused_latin :: network where
  "net_all_refused_latin url t = Inl refused_latin"

definition net_broken_latin_first :: network where
  "net_broken_latin_first url t =
     (if url = ''https://ordinals.com/content/'' @ inscription_id then Inr broken_body_latin
      else Inr image_response)"

section \<open>The hash function\<close>

lemma length_be32: "length (be32 w) = 4"
  by (simp add: be32_def)

lemma length_digest_bytes: "length (digest_bytes hs) = 32"
  by (induction hs rule: digest_bytes.induct) (simp add: length_be32)

lemma length_sha256: "length (sha256 msg) = 32"
  by (simp add: sha256_def length_digest_bytes)

lemma length_hexdigest: "length (hexdigest d) = 2 * length d"
  by (induction d) (simp_all add: hexdigest_def hex_byte_def)

lemma hex_digit_mem: "k < 16 \<Longrightarrow> hex_digits ! k \<in> set hex_digits"
  by (rule nth_mem) (simp add: hex_digits_def)

lemma set_hex_byte: "set (hex_byte b) \<subseteq> set hex_digits"
proof -
  have "unat b < 256" using unsigned_less [of b] by simp
  then have "unat b div 16 < 16" by simp
  moreover have "unat b mod 16 < 16" by simp
  ultimately show ?thesis
    unfolding hex_byte_def using hex_digit_mem by simp
qed

lemma set_hexdigest: "set (hexdigest d) \<subseteq> set hex_digits"
  using set_hex_byte by (auto simp: hexdigest_def)

section \<open>Sequencing\<close>

lemma and_then_Inl [simp]: "and_then (Inl e, evs) f = (Inl e, evs)"
  by (simp add: and_then_def)

lemma and_then_Inr [simp]: "and_then (Inr x, evs) f = (fst (f x), evs @ snd (f x))"
  by (simp add: and_then_def split: prod.splits)

lemma fst_and_then:
  "fst (and_then m f) = (case fst m of Inl e \<Rightarrow> Inl e | Inr x \<Rightarrow> fst (f x))"
  by (cases m) (simp add: and_then_def split: sum.splits prod.splits)

lemma snd_and_then:
  "snd (and_then m f) = snd m @ (case fst m of Inl e \<Rightarrow> [] | Inr x \<Rightarrow> snd (f x))"
  by (cases m) (simp add: and_then_def split: sum.splits prod.splits)

lemma value_of_simps [simp]:
  "fst (value_of r) = r" "snd (value_of r) = []"
  by (simp_all add: value_of_def)

lemma py_print_None: "out s = None \<Longrightarrow> py_print out s = (Inr (), [Print s])"
  by (simp add: py_print_def)

lemma py_print_Some: "out s = Some e \<Longrightarrow> py_print out s = (Inl e, [])"
  by (simp add: py_print_def)

lemma fst_py_print: "fst (py_print out s) = (case out s of None \<Rightarrow> Inr () | Some e \<Rightarrow> Inl e)"
  by (simp add: py_print_def split: option.splits)

lemma gets_append: "gets (xs @ ys) = gets xs @ gets ys"
  by (induction xs rule: gets.induct) simp_all

lemma gets_py_print [simp]: "gets (snd (py_print out s)) = []"
  by (simp add: py_print_def split: option.splits)

lemma gets_and_then_silent:
  assumes "gets (snd m) = []" and "\<And>x. gets (snd (f x)) = []"
  shows "gets (snd (and_then m f)) = []"
  using assms by (simp add: snd_and_then gets_append split: sum.splits)

section \<open>The success branch\<close>

lemma gets_success_branch: "gets (snd (success_branch out r)) = []"
  unfolding success_branch_def
  by (intro gets_and_then_silent) simp_all

lemma success_branch_returns:
  assumes "fst (success_branch out r) = Inr h"
  shows "\<exists>body. content r = Inr (PyBytes body) \<and> h = hexdigest (sha256 body)"
proof -
  from assms obtain v where v: "content r = Inr v"
    unfolding success_branch_def by (cases "content r") (simp_all add: fst_and_then)
  with assms obtain h' where h': "hashlib_sha256_hexdigest v = Inr h'"
    unfolding success_branch_def
    by (cases "hashlib_sha256_hexdigest v") (simp_all add: fst_and_then)
  with assms v have "h = h'"
    unfolding success_branch_def
    by (simp add: fst_and_then fst_py_print split: sum.splits option.splits)
  moreover from h' obtain body where "v = PyBytes body" and "h' = hexdigest (sha256 body)"
    by (cases v) (simp_all add: hashlib_sha256_hexdigest_def)
  ultimately show ?thesis
    using v by simp
qed

lemma success_branch_completes:
  assumes "content r = Inr (PyBytes body)"
    and "headers r = Inr hs"
    and "out (CHR 0x0A # ''Success!'') = None"
    and "out (''Content length: '' @ str_int (int (length body)) @ '' bytes'') = None"
    and "out (''Content type: ''
               @ (case hs ''content-type'' of None \<Rightarrow> ''unknown'' | Some v \<Rightarrow> v)) = None"
    and "out (''SHA-256 Hash: '' @ hexdigest (sha256 body)) = None"
  shows "success_branch out r =
     (Inr (hexdigest (sha256 body)),
      [Print (CHR 0x0A # ''Success!''),
       Print (''Content length: '' @ str_int (int (length body)) @ '' bytes''),
       Print (''Content type: ''
                @ (case hs ''content-type'' of None \<Rightarrow> ''unknown'' | Some v \<Rightarrow> v)),
       Print (''SHA-256 Hash: '' @ hexdigest (sha256 body))])"
  using assms
  by (simp add: success_branch_def value_of_def py_print_def hashlib_sha256_hexdigest_def
        py_len_def headers_get_def)

section \<open>The try block\<close>

lemma try_body_unprinted:
  "out (''Trying: '' @ url) = Some e \<Longrightarrow> try_body net out url = (Inl e, [])"
  by (simp add: try_body_def py_print_def)

lemma try_body_get_raises:
  "out (''Trying: '' @ url) = None \<Longrightarrow> net url 30 = Inl e \<Longrightarrow>
   try_body net out url = (Inl e, [Print (''Trying: '' @ url), Get url 30])"
  by (simp add: try_body_def py_print_def requests_get_def)

lemma try_body_not_200:
  "out (''Trying: '' @ url) = None \<Longrightarrow> net url 30 = Inr r \<Longrightarrow> status_code r \<noteq> 200 \<Longrightarrow>
   out (''  Status code: '' @ str_int (status_code r)) = None \<Longrightarrow>
   try_body net out url =
     (Inr None,
      [Print (''Trying: '' @ url), Get url 30,
       Print (''  Status code: '' @ str_int (status_code r))])"
  by (simp add: try_body_def py_print_def requests_get_def)

lemma try_body_200:
  assumes "out (''Trying: '' @ url) = None" and "net url 30 = Inr r" and "status_code r = 200"
  shows "try_body net out url =
     (map_sum id Some (fst (success_branch out r)),
      [Print (''Trying: '' @ url), Get url 30] @ snd (success_branch out r))"
proof (cases "success_branch out r")
  case (Pair a b)
  then show ?thesis
    using assms by (cases a) (simp_all add: try_body_def py_print_def requests_get_def)
qed

lemma gets_try_body:
  "gets (snd (try_body net out url)) =
     (if out (''Trying: '' @ url) = None then [(url, 30)] else [])"
  by (simp add: try_body_def py_print_def requests_get_def snd_and_then gets_append
        gets_success_branch
      split: option.splits sum.splits)

lemma try_body_returns:
  assumes "fst (try_body net out url) = Inr (Some h)"
  shows "out (''Trying: '' @ url) = None
     \<and> (\<exists>r body. net url 30 = Inr r \<and> status_code r = 200
           \<and> content r = Inr (PyBytes body) \<and> h = hexdigest (sha256 body))"
proof -
  from assms have printed: "out (''Trying: '' @ url) = None"
    by (cases "out (''Trying: '' @ url)") (simp_all add: try_body_def py_print_def)
  with assms obtain r where r: "net url 30 = Inr r"
    by (cases "net url 30") (simp_all add: try_body_def py_print_def requests_get_def)
  with assms printed have ok: "status_code r = 200"
    by (cases "status_code r = 200")
       (simp_all add: try_body_def py_print_def requests_get_def fst_and_then
          split: sum.splits option.splits)
  with assms printed r have "fst (success_branch out r) = Inr h"
    by (cases "fst (success_branch out r)") (simp_all add: try_body_200)
  from success_branch_returns [OF this] printed r ok show ?thesis
    by blast
qed


section \<open>The loop\<close>

lemma for_url_Cons:
  "for_url net out (url # urls) =
     (case fst (try_body net out url) of
        Inl e \<Rightarrow>
          (case out (''  Error: '' @ exc_str e) of
             None \<Rightarrow>
               (fst (for_url net out urls),
                snd (try_body net out url) @ Print (''  Error: '' @ exc_str e)
                  # snd (for_url net out urls))
           | Some e' \<Rightarrow> (Inl e', snd (try_body net out url)))
      | Inr None \<Rightarrow>
          (fst (for_url net out urls), snd (try_body net out url) @ snd (for_url net out urls))
      | Inr (Some h) \<Rightarrow> (Inr (Some h), snd (try_body net out url)))"
  by (cases "try_body net out url")
     (simp add: for_url.simps(2) py_print_def split: sum.splits option.splits)

lemma gets_for_url_prefix:
  "prefix (gets (snd (for_url net out urls)))
     (map (\<lambda>url. (url, 30)) (filter (\<lambda>url. out (''Trying: '' @ url) = None) urls))"
proof (induction urls)
  case Nil
  then show ?case by simp
next
  case (Cons url urls)
  then show ?case
    by (simp add: for_url_Cons gets_append gets_try_body split: sum.splits option.splits)
qed

lemma for_url_Some:
  "fst (for_url net out urls) = Inr (Some h) \<Longrightarrow>
   \<exists>url r body pre. url \<in> set urls \<and> net url 30 = Inr r \<and> status_code r = 200
     \<and> content r = Inr (PyBytes body) \<and> h = hexdigest (sha256 body)
     \<and> gets (snd (for_url net out urls)) = pre @ [(url, 30)]"
proof (induction urls)
  case Nil
  then show ?case by simp
next
  case (Cons url urls)
  show ?case
  proof (cases "fst (try_body net out url) = Inr (Some h)")
    case True
    from try_body_returns [OF True] obtain r body where
      "out (''Trying: '' @ url) = None"
      "net url 30 = Inr r" "status_code r = 200" "content r = Inr (PyBytes body)"
      "h = hexdigest (sha256 body)"
      by blast
    moreover from this True have "gets (snd (for_url net out (url # urls))) = [] @ [(url, 30)]"
      by (simp add: for_url_Cons gets_try_body)
    ultimately show ?thesis
      by (metis list.set_intros(1))
  next
    case False
    with Cons.prems have rest: "fst (for_url net out urls) = Inr (Some h)"
      by (simp add: for_url_Cons split: sum.splits option.splits)
    from Cons.IH [OF rest] obtain u r body pre where
      u: "u \<in> set urls" "net u 30 = Inr r" "status_code r = 200"
         "content r = Inr (PyBytes body)"
         "h = hexdigest (sha256 body)" "gets (snd (for_url net out urls)) = pre @ [(u, 30)]"
      by blast
    from False Cons.prems u(6)
    have "gets (snd (for_url net out (url # urls))) =
        (gets (snd (try_body net out url)) @ pre) @ [(u, 30)]"
      by (simp add: for_url_Cons gets_append split: sum.splits option.splits)
    with u show ?thesis
      by (metis list.set_intros(2))
  qed
qed

lemma for_url_exhausted:
  assumes "\<forall>url \<in> set urls.
             case fst (try_body net out url) of
               Inl e \<Rightarrow> out (''  Error: '' @ exc_str e) = None
             | Inr None \<Rightarrow> True
             | Inr (Some h) \<Rightarrow> False"
  shows "fst (for_url net out urls) = Inr None"
  using assms
proof (induction urls)
  case Nil
  then show ?case by simp
next
  case (Cons url urls)
  then show ?case
    by (simp add: for_url_Cons split: sum.splits option.splits)
qed


section \<open>The function\<close>

lemma fst_get_inscription_hash:
  "fst (get_inscription_hash net out ident) =
     (case fst (for_url net out (endpoints ident)) of
        Inl e \<Rightarrow> Inl e
      | Inr (Some h) \<Rightarrow> Inr (Some h)
      | Inr None \<Rightarrow>
          (case out (CHR 0x0A # ''Failed to retrieve content from all endpoints.'') of
             None \<Rightarrow> Inr None
           | Some e \<Rightarrow> Inl e))"
  by (simp add: get_inscription_hash_def fst_and_then fst_py_print
      split: sum.splits option.splits)

lemma gets_get_inscription_hash:
  "gets (snd (get_inscription_hash net out ident)) =
     gets (snd (for_url net out (endpoints ident)))"
  by (simp add: get_inscription_hash_def snd_and_then gets_append
      split: sum.splits option.splits)

lemma distinct_endpoints: "distinct (endpoints ident)"
  by (simp add: endpoints_def)

lemma gets_prefix:
  "prefix (gets (snd (get_inscription_hash net out ident)))
     (map (\<lambda>url. (url, 30))
        (filter (\<lambda>url. out (''Trying: '' @ url) = None) (endpoints ident)))"
  unfolding gets_get_inscription_hash by (rule gets_for_url_prefix)

lemma distinct_gets_get_inscription_hash:
  "distinct (gets (snd (get_inscription_hash net out ident)))"
proof -
  have "distinct (map (\<lambda>url. (url, 30::nat))
      (filter (\<lambda>url. out (''Trying: '' @ url) = None) (endpoints ident)))"
    using distinct_endpoints [of ident] by (simp add: distinct_map inj_on_def)
  with gets_prefix [of net out ident] show ?thesis
    unfolding prefix_def by (metis distinct_append)
qed

lemma every_get_waits_30:
  "length (gets (snd (get_inscription_hash net out ident))) \<le> 3
   \<and> snd ` set (gets (snd (get_inscription_hash net out ident))) \<subseteq> {30}"
proof -
  let ?all = "map (\<lambda>url. (url, 30::nat))
      (filter (\<lambda>url. out (''Trying: '' @ url) = None) (endpoints ident))"
  have "length (gets (snd (get_inscription_hash net out ident))) \<le> length ?all"
    using gets_prefix by (rule prefix_length_le)
  also have "\<dots> \<le> length (endpoints ident)"
    by simp
  finally have "length (gets (snd (get_inscription_hash net out ident))) \<le> 3"
    by (simp add: endpoints_def)
  moreover have "set (gets (snd (get_inscription_hash net out ident))) \<subseteq> set ?all"
    using gets_prefix by (rule set_mono_prefix)
  then have "snd ` set (gets (snd (get_inscription_hash net out ident))) \<subseteq> {30}"
    by auto
  ultimately show ?thesis by simp
qed

section \<open>Outcomes of an attempt\<close>

lemma success_branch_content_raises:
  "content r = Inl e \<Longrightarrow> success_branch out r = (Inl e, [])"
  by (simp add: success_branch_def value_of_def)

lemma success_branch_hash_raises:
  "content r = Inr v \<Longrightarrow> hashlib_sha256_hexdigest v = Inl e \<Longrightarrow>
   success_branch out r = (Inl e, [])"
  by (simp add: success_branch_def value_of_def)

lemma success_branch_print_raises:
  "content r = Inr (PyBytes body) \<Longrightarrow> out (CHR 0x0A # ''Success!'') = Some e \<Longrightarrow>
   success_branch out r = (Inl e, [])"
  by (simp add: success_branch_def value_of_def py_print_def hashlib_sha256_hexdigest_def)

lemma success_branch_headers_raise:
  "content r = Inr (PyBytes body) \<Longrightarrow> out (CHR 0x0A # ''Success!'') = None \<Longrightarrow>
   out (''Content length: '' @ str_int (int (length body)) @ '' bytes'') = None \<Longrightarrow>
   headers r = Inl e \<Longrightarrow>
   success_branch out r =
     (Inl e,
      [Print (CHR 0x0A # ''Success!''),
       Print (''Content length: '' @ str_int (int (length body)) @ '' bytes'')])"
  by (simp add: success_branch_def value_of_def py_print_def hashlib_sha256_hexdigest_def
        py_len_def headers_get_def)

lemma success_branch_content_type_unprinted:
  "content r = Inr (PyBytes body) \<Longrightarrow> headers r = Inr hs \<Longrightarrow>
   out (CHR 0x0A # ''Success!'') = None \<Longrightarrow>
   out (''Content length: '' @ str_int (int (length body)) @ '' bytes'') = None \<Longrightarrow>
   out (''Content type: ''
          @ (case hs ''content-type'' of None \<Rightarrow> ''unknown'' | Some v \<Rightarrow> v)) = Some e \<Longrightarrow>
   success_branch out r =
     (Inl e,
      [Print (CHR 0x0A # ''Success!''),
       Print (''Content length: '' @ str_int (int (length body)) @ '' bytes'')])"
  by (simp add: success_branch_def value_of_def py_print_def hashlib_sha256_hexdigest_def
        py_len_def headers_get_def)

lemma for_url_returns:
  assumes "fst (try_body net out url) = Inr (Some h)"
  shows "for_url net out (url # urls) = (Inr (Some h), snd (try_body net out url))"
  using assms by (simp add: for_url_Cons)

lemma for_url_goes_on:
  assumes "try_body net out url = (Inr None, evs)"
  shows "for_url net out (url # urls) =
     (fst (for_url net out urls), evs @ snd (for_url net out urls))"
  using assms by (simp add: for_url_Cons)

lemma for_url_handles:
  assumes "try_body net out url = (Inl e, evs)" and "out (''  Error: '' @ exc_str e) = None"
  shows "for_url net out (url # urls) =
     (fst (for_url net out urls),
      evs @ Print (''  Error: '' @ exc_str e) # snd (for_url net out urls))"
  using assms by (simp add: for_url_Cons)

lemma for_url_escapes:
  assumes "try_body net out url = (Inl e, evs)" and "out (''  Error: '' @ exc_str e) = Some e'"
  shows "for_url net out (url # urls) = (Inl e', evs)"
  using assms by (simp add: for_url_Cons)

lemma try_body_succeeds:
  assumes "out (''Trying: '' @ url) = None"
    and "net url 30 = Inr r"
    and "status_code r = 200"
    and "content r = Inr (PyBytes body)"
    and "headers r = Inr hs"
    and "out (CHR 0x0A # ''Success!'') = None"
    and "out (''Content length: '' @ str_int (int (length body)) @ '' bytes'') = None"
    and "out (''Content type: ''
               @ (case hs ''content-type'' of None \<Rightarrow> ''unknown'' | Some v \<Rightarrow> v)) = None"
    and "out (''SHA-256 Hash: '' @ hexdigest (sha256 body)) = None"
  shows "try_body net out url =
     (Inr (Some (hexdigest (sha256 body))),
      [Print (''Trying: '' @ url), Get url 30,
       Print (CHR 0x0A # ''Success!''),
       Print (''Content length: '' @ str_int (int (length body)) @ '' bytes''),
       Print (''Content type: ''
                @ (case hs ''content-type'' of None \<Rightarrow> ''unknown'' | Some v \<Rightarrow> v)),
       Print (''SHA-256 Hash: '' @ hexdigest (sha256 body))])"
  using try_body_200 [of out url net r, OF assms(1-3)]
    success_branch_completes [of r body hs out, OF assms(4-9)]
  by simp

lemma try_body_fails_first:
  assumes "out (''Trying: '' @ url) = None"
    and "case net url 30 of
           Inl e \<Rightarrow> out (''  Error: '' @ exc_str e) = None
         | Inr r \<Rightarrow>
             status_code r \<noteq> 200 \<and> out (''  Status code: '' @ str_int (status_code r)) = None"
  shows "fst (for_url net out (url # urls)) = fst (for_url net out urls)"
    and "gets (snd (for_url net out (url # urls))) = (url, 30) # gets (snd (for_url net out urls))"
proof -
  have "fst (for_url net out (url # urls)) = fst (for_url net out urls)
      \<and> gets (snd (for_url net out (url # urls))) = (url, 30) # gets (snd (for_url net out urls))"
  proof (cases "net url 30")
    case (Inl e)
    with assms have "try_body net out url = (Inl e, [Print (''Trying: '' @ url), Get url 30])"
      and "out (''  Error: '' @ exc_str e) = None"
      by (simp_all add: try_body_get_raises)
    from for_url_handles [OF this] show ?thesis
      by (simp add: gets_append)
  next
    case (Inr r)
    with assms have "try_body net out url =
        (Inr None,
         [Print (''Trying: '' @ url), Get url 30,
          Print (''  Status code: '' @ str_int (status_code r))])"
      by (simp add: try_body_not_200)
    from for_url_goes_on [OF this] show ?thesis
      by (simp add: gets_append)
  qed
  then show "fst (for_url net out (url # urls)) = fst (for_url net out urls)"
    and "gets (snd (for_url net out (url # urls))) = (url, 30) # gets (snd (for_url net out urls))"
    by simp_all
qed

section \<open>Evaluation on concrete worlds\<close>

lemmas run_defs =
  get_inscription_hash_def endpoints_def for_url_Cons try_body_def success_branch_def
  value_of_def py_print_def requests_get_def hashlib_sha256_hexdigest_def py_len_def
  headers_get_def str_int_def str_nat.simps decimal_digits_def

lemmas world_defs =
  console_ok_def console_ascii_def unicode_error_def timed_out_def refused_def
  refused_latin_def image_response_def latin_response_def not_found_def unavailable_def
  broken_body_def broken_body_latin_def none_body_def inscription_id_def

lemma requests_prefix_when_printed:
  assumes "\<forall>url \<in> set (endpoints ident). out (''Trying: '' @ url) = None"
  shows "prefix (gets (snd (get_inscription_hash net out ident)))
           (map (\<lambda>url. (url, 30)) (endpoints ident))"
proof -
  from assms have "filter (\<lambda>url. out (''Trying: '' @ url) = None) (endpoints ident)
      = endpoints ident"
    by (simp add: filter_id_conv)
  with gets_prefix [of net out ident] show ?thesis
    by simp
qed

section \<open>Test vectors\<close>

text \<open>
  The hash function on inputs whose digests are known: the empty message, \<^verbatim>\<open>abc\<close>, a
  56-byte message (which needs a second block for its padding), and the bytes of
  \<open>image_bytes\<close>, which are not valid UTF-8.
\<close>

lemma sha256_empty:
  "hexdigest (sha256 []) = ''e3b0c44298fc1c149afbf4c8996fb92427ae41e4649b934ca495991b7852b855''"
  by code_simp

lemma sha256_abc:
  "hexdigest (sha256 [0x61, 0x62, 0x63]) =
     ''ba7816bf8f01cfea414140de5dae2223b00361a396177a9cb410ff61f20015ad''"
  by code_simp

lemma sha256_two_blocks:
  "hexdigest (sha256
     [0x61, 0x62, 0x63, 0x64, 0x62, 0x63, 0x64, 0x65, 0x63, 0x64, 0x65, 0x66, 0x64, 0x65,
      0x66, 0x67, 0x65, 0x66, 0x67, 0x68, 0x66, 0x67, 0x68, 0x69, 0x67, 0x68, 0x69, 0x6a,
      0x68, 0x69, 0x6a, 0x6b, 0x69, 0x6a, 0x6b, 0x6c, 0x6a, 0x6b, 0x6c, 0x6d, 0x6b, 0x6c,
      0x6d, 0x6e, 0x6c, 0x6d, 0x6e, 0x6f, 0x6d, 0x6e, 0x6f, 0x70, 0x6e, 0x6f, 0x70, 0x71]) =
     ''248d6a61d20638b8e5c026930c3e6039a33ce45964ff2167f6ecedd419db06c1''"
  by code_simp

lemma sha256_image_bytes:
  "hexdigest (sha256 image_bytes) =
     ''4c62c8992397fda227f0639ad6eac59daed5733b5adfc850c1cb3574b90e7cb4''"
  by code_simp

section \<open>Properties of \<^verbatim>\<open>get_inscription_hash\<close>\<close>

subsection \<open>The digest\<close>

text \<open>
  C1. Whenever the call returns a digest, some endpoint of the list answered with status
  200 and a body \<open>body\<close> of bytes; that endpoint is the last one the call contacted; and
  the value returned is the SHA-256 of exactly the bytes of \<open>body\<close>, written as 64
  characters drawn from \<^verbatim>\<open>0123456789abcdef\<close>. The bytes go from the response to the
  hash function untouched: no decoding takes place in between. This holds whatever
  standard output does.
\<close>

theorem digest_of_winning_body:
  assumes "fst (get_inscription_hash net out ident) = Inr (Some h)"
  shows "\<exists>url r body pre.
           url \<in> set (endpoints ident) \<and> net url 30 = Inr r \<and> status_code r = 200
           \<and> content r = Inr (PyBytes body)
           \<and> gets (snd (get_inscription_hash net out ident)) = pre @ [(url, 30)]
           \<and> h = hexdigest (sha256 body)
           \<and> length h = 64 \<and> set h \<subseteq> set ''0123456789abcdef''"
proof -
  from assms have "fst (for_url net out (endpoints ident)) = Inr (Some h)"
    by (simp add: fst_get_inscription_hash split: sum.splits option.splits)
  from for_url_Some [OF this] obtain url r body pre where
    w: "url \<in> set (endpoints ident)" "net url 30 = Inr r" "status_code r = 200"
       "content r = Inr (PyBytes body)" "h = hexdigest (sha256 body)"
       "gets (snd (for_url net out (endpoints ident))) = pre @ [(url, 30)]"
    by blast
  have "length h = 64"
    by (simp add: w(5) length_hexdigest length_sha256)
  moreover have "set h \<subseteq> set ''0123456789abcdef''"
    using set_hexdigest [of "sha256 body"] by (simp add: w(5) hex_digits_def)
  ultimately show ?thesis
    using w by (simp add: gets_get_inscription_hash) blast
qed

theorem digest_of_winning_body_witness:
  "fst (get_inscription_hash net_second console_ok inscription_id)
     = Inr (Some (hexdigest (sha256 image_bytes)))
   \<and> (\<exists>url r body pre.
          url \<in> set (endpoints inscription_id) \<and> net_second url 30 = Inr r
          \<and> status_code r = 200 \<and> content r = Inr (PyBytes body)
          \<and> gets (snd (get_inscription_hash net_second console_ok inscription_id))
               = pre @ [(url, 30)]
          \<and> hexdigest (sha256 image_bytes) = hexdigest (sha256 body)
          \<and> length (hexdigest (sha256 image_bytes)) = 64
          \<and> set (hexdigest (sha256 image_bytes)) \<subseteq> set ''0123456789abcdef'')"
proof -
  have h: "fst (get_inscription_hash net_second console_ok inscription_id)
             = Inr (Some (hexdigest (sha256 image_bytes)))"
    by (simp add: run_defs net_second_def console_ok_def timed_out_def image_response_def)
  from h digest_of_winning_body [OF h] show ?thesis
    by (rule conjI)
qed

subsection \<open>Short circuit on the first endpoint\<close>

text \<open>
  C2, as amended. If the line announcing the first endpoint is printed, its GET returns
  status 200, and the success branch runs to its \<^verbatim>\<open>return\<close> (the content is
  \<^verbatim>\<open>bytes\<close>, the headers can be read, and the four report lines are printed), then
  the call returns the digest of that response and issues no request but the one to the
  first endpoint.
\<close>

theorem first_200_short_circuits:
  assumes "out (''Trying: https://ordinals.com/content/'' @ ident) = None"
    and "net (''https://ordinals.com/content/'' @ ident) 30 = Inr r"
    and "status_code r = 200"
    and "content r = Inr (PyBytes body)"
    and "headers r = Inr hs"
    and "out (CHR 0x0A # ''Success!'') = None"
    and "out (''Content length: '' @ str_int (int (length body)) @ '' bytes'') = None"
    and "out (''Content type: ''
               @ (case hs ''content-type'' of None \<Rightarrow> ''unknown'' | Some v \<Rightarrow> v)) = None"
    and "out (''SHA-256 Hash: '' @ hexdigest (sha256 body)) = None"
  shows "get_inscription_hash net out ident =
           (Inr (Some (hexdigest (sha256 body))),
            [Print (''Trying: https://ordinals.com/content/'' @ ident),
             Get (''https://ordinals.com/content/'' @ ident) 30,
             Print (CHR 0x0A # ''Success!''),
             Print (''Content length: '' @ str_int (int (length body)) @ '' bytes''),
             Print (''Content type: ''
                      @ (case hs ''content-type'' of None \<Rightarrow> ''unknown'' | Some v \<Rightarrow> v)),
             Print (''SHA-256 Hash: '' @ hexdigest (sha256 body))])"
proof -
  define u1 where "u1 = ''https://ordinals.com/content/'' @ ident"
  have eps: "endpoints ident = u1 # tl (endpoints ident)"
    by (simp add: endpoints_def u1_def)
  from assms(1) have printed: "out (''Trying: '' @ u1) = None"
    by (simp add: u1_def)
  from assms(2) have got: "net u1 30 = Inr r"
    by (simp add: u1_def)
  note tb = try_body_succeeds
    [where out = out and net = net and url = u1 and r = r and body = body and hs = hs,
     OF printed got assms(3-9)]
  then have "fst (try_body net out u1) = Inr (Some (hexdigest (sha256 body)))"
    by simp
  from for_url_returns [OF this, of "tl (endpoints ident)"] tb eps
  have "for_url net out (endpoints ident) =
      (Inr (Some (hexdigest (sha256 body))),
       [Print (''Trying: '' @ u1), Get u1 30,
        Print (CHR 0x0A # ''Success!''),
        Print (''Content length: '' @ str_int (int (length body)) @ '' bytes''),
        Print (''Content type: ''
                 @ (case hs ''content-type'' of None \<Rightarrow> ''unknown'' | Some v \<Rightarrow> v)),
        Print (''SHA-256 Hash: '' @ hexdigest (sha256 body))])"
    by simp
  then show ?thesis
    by (simp add: get_inscription_hash_def u1_def)
qed

theorem first_200_short_circuits_witness:
  "net_first (''https://ordinals.com/content/'' @ inscription_id) 30 = Inr image_response
   \<and> status_code image_response = 200
   \<and> content image_response = Inr (PyBytes image_bytes)
   \<and> get_inscription_hash net_first console_ok inscription_id =
        (Inr (Some (hexdigest (sha256 image_bytes))),
         [Print (''Trying: https://ordinals.com/content/'' @ inscription_id),
          Get (''https://ordinals.com/content/'' @ inscription_id) 30,
          Print (CHR 0x0A # ''Success!''),
          Print ''Content length: 8 bytes'',
          Print ''Content type: image/png'',
          Print (''SHA-256 Hash: '' @ hexdigest (sha256 image_bytes))])"
  using first_200_short_circuits
    [where out = console_ok and net = net_first and ident = inscription_id
       and r = image_response and body = image_bytes
       and hs = "[''content-type'' \<mapsto> ''image/png'']"]
  by (simp add: net_first_def image_response_def image_bytes_def console_ok_def
        str_int_def str_nat.simps decimal_digits_def)

text \<open>
  Without the proviso the property fails. Here the first endpoint answers 200 with a
  readable body, but its content type cannot be printed on an ASCII console: the print
  raises inside the \<^verbatim>\<open>try\<close>, the handler takes the attempt for failed, and the
  second and third endpoints are requested.
\<close>

theorem first_200_yet_others_requested:
  "net_latin_only (''https://ordinals.com/content/'' @ inscription_id) 30 = Inr latin_response
   \<and> status_code latin_response = 200
   \<and> content latin_response = Inr (PyBytes image_bytes)
   \<and> fst (get_inscription_hash net_latin_only console_ascii inscription_id) = Inr None
   \<and> gets (snd (get_inscription_hash net_latin_only console_ascii inscription_id)) =
        [(''https://ordinals.com/content/'' @ inscription_id, 30),
         (''https://ord.io/content/'' @ inscription_id, 30),
         (''https://ordiscan.com/content/'' @ inscription_id, 30)]"
  by (simp add: run_defs world_defs net_latin_only_def image_bytes_def)

subsection \<open>Fallback to the second endpoint\<close>

text \<open>
  C3, as amended. If the first attempt fails by a raised network error or a status other
  than 200, and its report line is printed, and the second endpoint is announced, answers
  200 and its success branch runs to its \<^verbatim>\<open>return\<close>, then the call returns the
  digest of the second response after exactly two requests, to the first and to the second
  endpoint; none to the third.
\<close>

theorem second_200_after_first_fails:
  assumes "out (''Trying: https://ordinals.com/content/'' @ ident) = None"
    and "case net (''https://ordinals.com/content/'' @ ident) 30 of
           Inl e \<Rightarrow> out (''  Error: '' @ exc_str e) = None
         | Inr r1 \<Rightarrow>
             status_code r1 \<noteq> 200
             \<and> out (''  Status code: '' @ str_int (status_code r1)) = None"
    and "out (''Trying: https://ord.io/content/'' @ ident) = None"
    and "net (''https://ord.io/content/'' @ ident) 30 = Inr r"
    and "status_code r = 200"
    and "content r = Inr (PyBytes body)"
    and "headers r = Inr hs"
    and "out (CHR 0x0A # ''Success!'') = None"
    and "out (''Content length: '' @ str_int (int (length body)) @ '' bytes'') = None"
    and "out (''Content type: ''
               @ (case hs ''content-type'' of None \<Rightarrow> ''unknown'' | Some v \<Rightarrow> v)) = None"
    and "out (''SHA-256 Hash: '' @ hexdigest (sha256 body)) = None"
  shows "fst (get_inscription_hash net out ident) = Inr (Some (hexdigest (sha256 body)))
         \<and> gets (snd (get_inscription_hash net out ident)) =
             [(''https://ordinals.com/content/'' @ ident, 30),
              (''https://ord.io/content/'' @ ident, 30)]"
proof -
  define u1 where "u1 = ''https://ordinals.com/content/'' @ ident"
  define u2 where "u2 = ''https://ord.io/content/'' @ ident"
  define u3 where "u3 = ''https://ordiscan.com/content/'' @ ident"
  have eps: "endpoints ident = [u1, u2, u3]"
    by (simp add: endpoints_def u1_def u2_def u3_def)
  from assms(1) have p1: "out (''Trying: '' @ u1) = None"
    by (simp add: u1_def)
  from assms(2) have f1: "case net u1 30 of
           Inl e \<Rightarrow> out (''  Error: '' @ exc_str e) = None
         | Inr r1 \<Rightarrow>
             status_code r1 \<noteq> 200
             \<and> out (''  Status code: '' @ str_int (status_code r1)) = None"
    by (simp add: u1_def)
  from assms(3) have p2: "out (''Trying: '' @ u2) = None"
    by (simp add: u2_def)
  from assms(4) have g2: "net u2 30 = Inr r"
    by (simp add: u2_def)
  note tb = try_body_succeeds
    [where out = out and net = net and url = u2 and r = r and body = body and hs = hs,
     OF p2 g2 assms(5-11)]
  then have "fst (try_body net out u2) = Inr (Some (hexdigest (sha256 body)))"
    by simp
  from for_url_returns [OF this, of "[u3]"] tb
  have second: "fst (for_url net out [u2, u3]) = Inr (Some (hexdigest (sha256 body)))"
    "gets (snd (for_url net out [u2, u3])) = [(u2, 30)]"
    by simp_all
  from try_body_fails_first
    [where out = out and net = net and url = u1 and urls = "[u2, u3]", OF p1 f1] second
  have "fst (for_url net out [u1, u2, u3]) = Inr (Some (hexdigest (sha256 body)))"
    and "gets (snd (for_url net out [u1, u2, u3])) = [(u1, 30), (u2, 30)]"
    by simp_all
  then show ?thesis
    unfolding fst_get_inscription_hash gets_get_inscription_hash eps
    by (simp add: u1_def u2_def)
qed

theorem second_200_after_first_fails_witness:
  "net_second (''https://ordinals.com/content/'' @ inscription_id) 30 = Inl timed_out
   \<and> net_second (''https://ord.io/content/'' @ inscription_id) 30 = Inr image_response
   \<and> status_code image_response = 200
   \<and> content image_response = Inr (PyBytes image_bytes)
   \<and> fst (get_inscription_hash net_second console_ok inscription_id)
        = Inr (Some (hexdigest (sha256 image_bytes)))
   \<and> gets (snd (get_inscription_hash net_second console_ok inscription_id)) =
        [(''https://ordinals.com/content/'' @ inscription_id, 30),
         (''https://ord.io/content/'' @ inscription_id, 30)]"
  using second_200_after_first_fails
    [where out = console_ok and net = net_second and ident = inscription_id
       and r = image_response and body = image_bytes
       and hs = "[''content-type'' \<mapsto> ''image/png'']"]
  by (simp add: net_second_def image_response_def console_ok_def)

text \<open>
  Without the proviso the property fails. Here the first endpoint refuses the connection
  and the second answers 200, but reading its body raises: the handler takes the attempt
  for failed and the third endpoint is requested.
\<close>

theorem second_200_yet_third_requested:
  "net_broken_second (''https://ordinals.com/content/'' @ inscription_id) 30 = Inl refused
   \<and> net_broken_second (''https://ord.io/content/'' @ inscription_id) 30 = Inr broken_body
   \<and> status_code broken_body = 200
   \<and> gets (snd (get_inscription_hash net_broken_second console_ok inscription_id)) =
        [(''https://ordinals.com/content/'' @ inscription_id, 30),
         (''https://ord.io/content/'' @ inscription_id, 30),
         (''https://ordiscan.com/content/'' @ inscription_id, 30)]"
  by (simp add: run_defs net_broken_second_def console_ok_def refused_def broken_body_def
        image_response_def)

subsection \<open>Total failure\<close>

text \<open>
  C4, as amended. If no attempt ends in a \<^verbatim>\<open>return\<close> (each ends in a status
  other than 200 or in a raised error), and the handler's report of each raised error and
  the closing message are printed, then the call returns \<^verbatim>\<open>None\<close>: no exception
  escapes, and the last thing printed is the closing message.
\<close>

theorem all_fail_returns_None:
  assumes "\<forall>url \<in> set (endpoints ident).
             case fst (try_body net out url) of
               Inl e \<Rightarrow> out (''  Error: '' @ exc_str e) = None
             | Inr None \<Rightarrow> True
             | Inr (Some h) \<Rightarrow> False"
    and "out (CHR 0x0A # ''Failed to retrieve content from all endpoints.'') = None"
  shows "fst (get_inscription_hash net out ident) = Inr None
         \<and> last (snd (get_inscription_hash net out ident)) =
             Print (CHR 0x0A # ''Failed to retrieve content from all endpoints.'')"
proof -
  from assms(1) have none: "fst (for_url net out (endpoints ident)) = Inr None"
    by (rule for_url_exhausted)
  with assms(2) show ?thesis
    by (cases "for_url net out (endpoints ident)")
       (simp add: get_inscription_hash_def py_print_def)
qed

theorem all_fail_returns_None_witness:
  "net_down (''https://ordinals.com/content/'' @ inscription_id) 30 = Inl refused
   \<and> net_down (''https://ord.io/content/'' @ inscription_id) 30 = Inr not_found
   \<and> status_code not_found = 404
   \<and> net_down (''https://ordiscan.com/content/'' @ inscription_id) 30 = Inr broken_body
   \<and> isl (content broken_body)
   \<and> fst (get_inscription_hash net_down console_ok inscription_id) = Inr None
   \<and> last (snd (get_inscription_hash net_down console_ok inscription_id)) =
        Print (CHR 0x0A # ''Failed to retrieve content from all endpoints.'')"
proof -
  have h: "\<forall>url \<in> set (endpoints inscription_id).
             case fst (try_body net_down console_ok url) of
               Inl e \<Rightarrow> console_ok (''  Error: '' @ exc_str e) = None
             | Inr None \<Rightarrow> True
             | Inr (Some h) \<Rightarrow> False"
    by (simp add: run_defs net_down_def console_ok_def refused_def not_found_def
          broken_body_def)
  have c: "console_ok (CHR 0x0A # ''Failed to retrieve content from all endpoints.'') = None"
    by (simp add: console_ok_def)
  from all_fail_returns_None
    [where net = net_down and out = console_ok and ident = inscription_id, OF h c]
  show ?thesis
    by (simp add: net_down_def not_found_def broken_body_def)
qed

text \<open>
  The handler's own print and the closing print are outside the \<^verbatim>\<open>try\<close>. Here
  every endpoint refuses the connection, with a message that an ASCII console cannot
  print: the handler's print raises, and that exception escapes the call.
\<close>

theorem all_fail_yet_exception_escapes:
  "net_all_refused_latin (''https://ordinals.com/content/'' @ inscription_id) 30
     = Inl refused_latin
   \<and> net_all_refused_latin (''https://ord.io/content/'' @ inscription_id) 30
       = Inl refused_latin
   \<and> net_all_refused_latin (''https://ordiscan.com/content/'' @ inscription_id) 30
       = Inl refused_latin
   \<and> get_inscription_hash net_all_refused_latin console_ascii inscription_id =
        (Inl unicode_error,
         [Print (''Trying: https://ordinals.com/content/'' @ inscription_id),
          Get (''https://ordinals.com/content/'' @ inscription_id) 30])"
  by (simp add: run_defs world_defs net_all_refused_latin_def)

subsection \<open>The status code\<close>

text \<open>
  C5, as amended. For an attempt that gets a response: with a status other than 200, if
  the line with the numeric code is printed, the loop goes on with the remaining
  endpoints; an attempt that returns a digest had status 200; and with status 200 the
  attempt returns the digest when the success branch runs to its \<^verbatim>\<open>return\<close>.
\<close>

theorem only_200_is_success:
  assumes "out (''Trying: '' @ url) = None"
    and "net url 30 = Inr r"
  shows "(status_code r \<noteq> 200 \<longrightarrow>
            out (''  Status code: '' @ str_int (status_code r)) = None \<longrightarrow>
            for_url net out (url # urls) =
              (fst (for_url net out urls),
               [Print (''Trying: '' @ url), Get url 30,
                Print (''  Status code: '' @ str_int (status_code r))]
               @ snd (for_url net out urls)))
       \<and> (fst (try_body net out url) = Inr (Some h) \<longrightarrow> status_code r = 200)
       \<and> (status_code r = 200 \<longrightarrow>
            content r = Inr (PyBytes body) \<longrightarrow>
            headers r = Inr hs \<longrightarrow>
            out (CHR 0x0A # ''Success!'') = None \<longrightarrow>
            out (''Content length: '' @ str_int (int (length body)) @ '' bytes'') = None \<longrightarrow>
            out (''Content type: ''
                   @ (case hs ''content-type'' of None \<Rightarrow> ''unknown'' | Some v \<Rightarrow> v)) = None \<longrightarrow>
            out (''SHA-256 Hash: '' @ hexdigest (sha256 body)) = None \<longrightarrow>
            for_url net out (url # urls) =
              (Inr (Some (hexdigest (sha256 body))),
               [Print (''Trying: '' @ url), Get url 30,
                Print (CHR 0x0A # ''Success!''),
                Print (''Content length: '' @ str_int (int (length body)) @ '' bytes''),
                Print (''Content type: ''
                         @ (case hs ''content-type'' of None \<Rightarrow> ''unknown'' | Some v \<Rightarrow> v)),
                Print (''SHA-256 Hash: '' @ hexdigest (sha256 body))]))"
proof (intro conjI impI)
  assume "status_code r \<noteq> 200"
    and "out (''  Status code: '' @ str_int (status_code r)) = None"
  with assms have "try_body net out url =
      (Inr None,
       [Print (''Trying: '' @ url), Get url 30,
        Print (''  Status code: '' @ str_int (status_code r))])"
    by (simp add: try_body_not_200)
  from for_url_goes_on [OF this]
  show "for_url net out (url # urls) =
      (fst (for_url net out urls),
       [Print (''Trying: '' @ url), Get url 30,
        Print (''  Status code: '' @ str_int (status_code r))]
       @ snd (for_url net out urls))" .
next
  assume "fst (try_body net out url) = Inr (Some h)"
  from try_body_returns [OF this] assms(2) show "status_code r = 200"
    by auto
next
  assume ok: "status_code r = 200" "content r = Inr (PyBytes body)" "headers r = Inr hs"
    "out (CHR 0x0A # ''Success!'') = None"
    "out (''Content length: '' @ str_int (int (length body)) @ '' bytes'') = None"
    "out (''Content type: ''
           @ (case hs ''content-type'' of None \<Rightarrow> ''unknown'' | Some v \<Rightarrow> v)) = None"
    "out (''SHA-256 Hash: '' @ hexdigest (sha256 body)) = None"
  note tb = try_body_succeeds
    [where out = out and net = net and url = url and r = r and body = body and hs = hs,
     OF assms ok]
  then have "fst (try_body net out url) = Inr (Some (hexdigest (sha256 body)))"
    by simp
  from for_url_returns [OF this, of urls] tb
  show "for_url net out (url # urls) =
      (Inr (Some (hexdigest (sha256 body))),
       [Print (''Trying: '' @ url), Get url 30,
        Print (CHR 0x0A # ''Success!''),
        Print (''Content length: '' @ str_int (int (length body)) @ '' bytes''),
        Print (''Content type: ''
                 @ (case hs ''content-type'' of None \<Rightarrow> ''unknown'' | Some v \<Rightarrow> v)),
        Print (''SHA-256 Hash: '' @ hexdigest (sha256 body))])"
    by simp
qed

theorem only_200_is_success_witness:
  "net_second_after_503 (''https://ordinals.com/content/'' @ inscription_id) 30
     = Inr unavailable
   \<and> status_code unavailable = 503
   \<and> net_second_after_503 (''https://ord.io/content/'' @ inscription_id) 30
       = Inr image_response
   \<and> status_code image_response = 200
   \<and> for_url net_second_after_503 console_ok
        [''https://ordinals.com/content/'' @ inscription_id,
         ''https://ord.io/content/'' @ inscription_id,
         ''https://ordiscan.com/content/'' @ inscription_id] =
        (Inr (Some (hexdigest (sha256 image_bytes))),
         [Print (''Trying: https://ordinals.com/content/'' @ inscription_id),
          Get (''https://ordinals.com/content/'' @ inscription_id) 30,
          Print ''  Status code: 503'',
          Print (''Trying: https://ord.io/content/'' @ inscription_id),
          Get (''https://ord.io/content/'' @ inscription_id) 30,
          Print (CHR 0x0A # ''Success!''),
          Print ''Content length: 8 bytes'',
          Print ''Content type: image/png'',
          Print (''SHA-256 Hash: '' @ hexdigest (sha256 image_bytes))])"
  using only_200_is_success
    [where out = console_ok and net = net_second_after_503
       and url = "''https://ordinals.com/content/'' @ inscription_id" and r = unavailable
       and urls = "[''https://ord.io/content/'' @ inscription_id,
                    ''https://ordiscan.com/content/'' @ inscription_id]"
       and h = "[]" and body = "[]" and hs = Map.empty]
    only_200_is_success
    [where out = console_ok and net = net_second_after_503
       and url = "''https://ord.io/content/'' @ inscription_id" and r = image_response
       and urls = "[''https://ordiscan.com/content/'' @ inscription_id]"
       and h = "[]" and body = image_bytes
       and hs = "[''content-type'' \<mapsto> ''image/png'']"]
  by (simp add: net_second_after_503_def unavailable_def image_response_def image_bytes_def
        console_ok_def str_int_def str_nat.simps decimal_digits_def)

text \<open>
  Status 200 alone does not make the attempt a success: here the response has status 200
  and a readable body, and the attempt ends in an error raised by a print of the success
  branch.
\<close>

theorem status_200_yet_no_success:
  "net_latin_only (''https://ordinals.com/content/'' @ inscription_id) 30 = Inr latin_response
   \<and> status_code latin_response = 200
   \<and> content latin_response = Inr (PyBytes image_bytes)
   \<and> try_body net_latin_only console_ascii (''https://ordinals.com/content/'' @ inscription_id) =
        (Inl unicode_error,
         [Print (''Trying: https://ordinals.com/content/'' @ inscription_id),
          Get (''https://ordinals.com/content/'' @ inscription_id) 30,
          Print (CHR 0x0A # ''Success!''),
          Print ''Content length: 8 bytes''])"
  by (simp add: run_defs world_defs net_latin_only_def image_bytes_def)

subsection \<open>Errors of the network call\<close>

text \<open>
  C6, as amended. If the network call of an attempt raises an error \<open>e\<close>, whatever its
  class, and the handler's line with \<^verbatim>\<open>str(e)\<close> is printed, the loop goes on with the
  remaining endpoints; what follows does not depend on \<open>e\<close>. No request is issued
  twice within one call.
\<close>

theorem get_error_moves_on:
  assumes "out (''Trying: '' @ url) = None"
    and "net url 30 = Inl e"
    and "out (''  Error: '' @ exc_str e) = None"
  shows "for_url net out (url # urls) =
           (fst (for_url net out urls),
            [Print (''Trying: '' @ url), Get url 30, Print (''  Error: '' @ exc_str e)]
            @ snd (for_url net out urls))
         \<and> distinct (gets (snd (get_inscription_hash net out ident)))"
proof -
  from assms(1,2) have "try_body net out url =
      (Inl e, [Print (''Trying: '' @ url), Get url 30])"
    by (rule try_body_get_raises)
  from for_url_handles [OF this assms(3), of urls] show ?thesis
    by (simp add: distinct_gets_get_inscription_hash)
qed

theorem get_error_moves_on_witness:
  "net_second (''https://ordinals.com/content/'' @ inscription_id) 30 = Inl timed_out
   \<and> for_url net_second console_ok
        [''https://ordinals.com/content/'' @ inscription_id,
         ''https://ordiscan.com/content/'' @ inscription_id] =
        (Inr None,
         [Print (''Trying: https://ordinals.com/content/'' @ inscription_id),
          Get (''https://ordinals.com/content/'' @ inscription_id) 30,
          Print ''  Error: Read timed out.'',
          Print (''Trying: https://ordiscan.com/content/'' @ inscription_id),
          Get (''https://ordiscan.com/content/'' @ inscription_id) 30,
          Print ''  Status code: 404''])
   \<and> distinct (gets (snd (get_inscription_hash net_second console_ok inscription_id)))"
  using get_error_moves_on
    [where out = console_ok and net = net_second
       and url = "''https://ordinals.com/content/'' @ inscription_id" and e = timed_out
       and urls = "[''https://ordiscan.com/content/'' @ inscription_id]"
       and ident = inscription_id]
  by (simp add: run_defs world_defs net_second_def)

text \<open>
  When the handler's print raises, the call does not proceed. Here the first endpoint
  refuses the connection with a message an ASCII console cannot print; the exception of
  the print escapes and the second endpoint, which would have answered 200, is never
  contacted.
\<close>

theorem get_error_yet_call_stops:
  "net_refused_latin (''https://ordinals.com/content/'' @ inscription_id) 30
     = Inl refused_latin
   \<and> net_refused_latin (''https://ord.io/content/'' @ inscription_id) 30
       = Inr image_response
   \<and> get_inscription_hash net_refused_latin console_ascii inscription_id =
        (Inl unicode_error,
         [Print (''Trying: https://ordinals.com/content/'' @ inscription_id),
          Get (''https://ordinals.com/content/'' @ inscription_id) 30])"
  by (simp add: run_defs world_defs net_refused_latin_def)

subsection \<open>The endpoint list\<close>

text \<open>
  C8. The endpoint list consists of three fixed prefixes, each ending in
  \<^verbatim>\<open>/content/\<close>, followed by the identifier as it was given; and the requests a call
  issues follow list order without a gap: they are an initial segment of the endpoints
  whose announcing line is printed (an endpoint whose announcing print raises is skipped
  before its request). When every announcing line is printed this is an initial segment
  of the list itself.
\<close>

theorem endpoints_fixed_in_order:
  "endpoints ident =
     [''https://ordinals.com/content/'' @ ident,
      ''https://ord.io/content/'' @ ident,
      ''https://ordiscan.com/content/'' @ ident]
   \<and> prefix (gets (snd (get_inscription_hash net out ident)))
        (map (\<lambda>url. (url, 30))
           (filter (\<lambda>url. out (''Trying: '' @ url) = None) (endpoints ident)))
   \<and> ((\<forall>url \<in> set (endpoints ident). out (''Trying: '' @ url) = None) \<longrightarrow>
        prefix (gets (snd (get_inscription_hash net out ident)))
          (map (\<lambda>url. (url, 30)) (endpoints ident)))"
proof (intro conjI impI)
  show "endpoints ident =
     [''https://ordinals.com/content/'' @ ident,
      ''https://ord.io/content/'' @ ident,
      ''https://ordiscan.com/content/'' @ ident]"
    by (simp add: endpoints_def)
  show "prefix (gets (snd (get_inscription_hash net out ident)))
        (map (\<lambda>url. (url, 30))
           (filter (\<lambda>url. out (''Trying: '' @ url) = None) (endpoints ident)))"
    by (rule gets_prefix)
  assume "\<forall>url \<in> set (endpoints ident). out (''Trying: '' @ url) = None"
  then show "prefix (gets (snd (get_inscription_hash net out ident)))
          (map (\<lambda>url. (url, 30)) (endpoints ident))"
    by (rule requests_prefix_when_printed)
qed

theorem endpoints_fixed_in_order_witness:
  "endpoints inscription_id =
     [''https://ordinals.com/content/'' @ inscription_id,
      ''https://ord.io/content/'' @ inscription_id,
      ''https://ordiscan.com/content/'' @ inscription_id]
   \<and> gets (snd (get_inscription_hash net_second console_ok inscription_id)) =
        [(''https://ordinals.com/content/'' @ inscription_id, 30),
         (''https://ord.io/content/'' @ inscription_id, 30)]
   \<and> prefix (gets (snd (get_inscription_hash net_second console_ok inscription_id)))
        (map (\<lambda>url. (url, 30)) (endpoints inscription_id))"
proof -
  have printed: "\<forall>url \<in> set (endpoints inscription_id). console_ok (''Trying: '' @ url) = None"
    by (simp add: console_ok_def)
  have issued: "gets (snd (get_inscription_hash net_second console_ok inscription_id)) =
        [(''https://ordinals.com/content/'' @ inscription_id, 30),
         (''https://ord.io/content/'' @ inscription_id, 30)]"
    by (simp add: run_defs net_second_def console_ok_def timed_out_def image_response_def)
  from endpoints_fixed_in_order [of inscription_id net_second console_ok] printed issued
  show ?thesis
    by simp
qed

subsection \<open>Errors of the success branch\<close>

text \<open>
  C9, as amended. The handler covers the success branch: when the response has status
  200 and any step of the branch raises \<open>e\<close> (reading the body, hashing it, taking its
  length, reading the headers, or one of the four prints), and the handler's line with
  \<^verbatim>\<open>str(e)\<close> is printed, the attempt counts as failed and the loop goes on with the
  remaining endpoints. Three such steps are run below: a body that cannot be read, a
  content that cannot be hashed, and a report line that cannot be printed.
\<close>

theorem handler_covers_success_branch:
  assumes "out (''Trying: '' @ url) = None"
    and "net url 30 = Inr r"
    and "status_code r = 200"
    and "fst (success_branch out r) = Inl e"
    and "out (''  Error: '' @ exc_str e) = None"
  shows "for_url net out (url # urls) =
           (fst (for_url net out urls),
            [Print (''Trying: '' @ url), Get url 30] @ snd (success_branch out r)
            @ [Print (''  Error: '' @ exc_str e)] @ snd (for_url net out urls))"
proof -
  from try_body_200 [where out = out and net = net and url = url and r = r, OF assms(1-3)]
    assms(4)
  have "try_body net out url =
      (Inl e, [Print (''Trying: '' @ url), Get url 30] @ snd (success_branch out r))"
    by simp
  from for_url_handles [OF this assms(5), of urls] show ?thesis
    by simp
qed

theorem handler_covers_success_branch_witness:
  "for_url net_broken_first console_ok
     [''https://ordinals.com/content/'' @ inscription_id,
      ''https://ordiscan.com/content/'' @ inscription_id] =
     (Inr None,
      [Print (''Trying: https://ordinals.com/content/'' @ inscription_id),
       Get (''https://ordinals.com/content/'' @ inscription_id) 30,
       Print ''  Error: Connection broken'',
       Print (''Trying: https://ordiscan.com/content/'' @ inscription_id),
       Get (''https://ordiscan.com/content/'' @ inscription_id) 30,
       Print ''  Error: Connection refused''])
   \<and> for_url net_none_first console_ok
     [''https://ordinals.com/content/'' @ inscription_id,
      ''https://ordiscan.com/content/'' @ inscription_id] =
     (Inr None,
      [Print (''Trying: https://ordinals.com/content/'' @ inscription_id),
       Get (''https://ordinals.com/content/'' @ inscription_id) 30,
       Print ''  Error: object supporting the buffer API required'',
       Print (''Trying: https://ordiscan.com/content/'' @ inscription_id),
       Get (''https://ordiscan.com/content/'' @ inscription_id) 30,
       Print ''  Error: Connection refused''])
   \<and> for_url net_latin_only console_ascii
     [''https://ordinals.com/content/'' @ inscription_id,
      ''https://ordiscan.com/content/'' @ inscription_id] =
     (Inr None,
      [Print (''Trying: https://ordinals.com/content/'' @ inscription_id),
       Get (''https://ordinals.com/content/'' @ inscription_id) 30,
       Print (CHR 0x0A # ''Success!''),
       Print ''Content length: 8 bytes'',
       Print ''  Error: ascii codec cannot encode character'',
       Print (''Trying: https://ordiscan.com/content/'' @ inscription_id),
       Get (''https://ordiscan.com/content/'' @ inscription_id) 30,
       Print ''  Error: Connection refused''])"
  using handler_covers_success_branch
    [where out = console_ok and net = net_broken_first
       and url = "''https://ordinals.com/content/'' @ inscription_id" and r = broken_body
       and e = "PyException ''ChunkedEncodingError'' ''Connection broken''"
       and urls = "[''https://ordiscan.com/content/'' @ inscription_id]"]
    handler_covers_success_branch
    [where out = console_ok and net = net_none_first
       and url = "''https://ordinals.com/content/'' @ inscription_id" and r = none_body
       and e = "PyException ''TypeError'' ''object supporting the buffer API required''"
       and urls = "[''https://ordiscan.com/content/'' @ inscription_id]"]
    handler_covers_success_branch
    [where out = console_ascii and net = net_latin_only
       and url = "''https://ordinals.com/content/'' @ inscription_id" and r = latin_response
       and e = unicode_error
       and urls = "[''https://ordiscan.com/content/'' @ inscription_id]"]
  by (simp add: run_defs world_defs net_broken_first_def net_none_first_def
        net_latin_only_def image_bytes_def)

text \<open>
  When the handler's print raises, the exception escapes. Here the body of a 200
  response cannot be read, the error's message cannot be printed on an ASCII console,
  and the call ends with the exception of that print.
\<close>

theorem success_branch_error_yet_escapes:
  "net_broken_latin_first (''https://ordinals.com/content/'' @ inscription_id) 30
     = Inr broken_body_latin
   \<and> status_code broken_body_latin = 200
   \<and> isl (content broken_body_latin)
   \<and> get_inscription_hash net_broken_latin_first console_ascii inscription_id =
        (Inl unicode_error,
         [Print (''Trying: https://ordinals.com/content/'' @ inscription_id),
          Get (''https://ordinals.com/content/'' @ inscription_id) 30])"
  by (simp add: run_defs world_defs net_broken_latin_first_def)

subsection \<open>Dependence on the outside world\<close>




end
